theory Spec2Isabelle
  imports Complex_Main
begin

section \<open>Python strings\<close>

text \<open>
  A Python \<open>str\<close> is modelled as a \<open>string\<close>, a list of 8-bit characters holding the
  UTF-8 bytes of the text, so that a character outside ASCII is a group of two to four
  bytes: a lead byte from \<open>0xC2\<close> up and continuation bytes from \<open>0x80\<close> to \<open>0xBF\<close>. No
  byte of such a group is an ASCII character and no group begins inside another, so a
  search for the bytes of a character finds it only where the text has that character.
  The string methods used by \<open>converter.py\<close> and \<open>api_server.py\<close> are written out below
  with the Unicode tables of Python 3.11 (Unicode 14).
\<close>

fun startswith :: "string \<Rightarrow> string \<Rightarrow> bool" where
  \<comment> \<open>\<open>s.startswith(p)\<close>\<close>
  "startswith s [] = True"
| "startswith [] (p # ps) = False"
| "startswith (c # cs) (p # ps) = (c = p \<and> startswith cs ps)"

definition endswith :: "string \<Rightarrow> string \<Rightarrow> bool" where
  \<comment> \<open>\<open>s.endswith(p)\<close>\<close>
  "endswith s p = startswith (rev s) (rev p)"

fun contains :: "string \<Rightarrow> string \<Rightarrow> bool" where
  \<comment> \<open>\<open>p in s\<close>: \<open>p\<close> occurs in \<open>s\<close> as a contiguous substring\<close>
  "contains [] p = (p = [])"
| "contains (c # cs) p = (startswith (c # cs) p \<or> contains cs p)"

fun replace_empty :: "string \<Rightarrow> string \<Rightarrow> string" where
  \<comment> \<open>\<open>s.replace(p, '')\<close> for a non-empty \<open>p\<close>: the occurrences of \<open>p\<close> are removed,
      scanning from the left, an occurrence never overlapping the one before\<close>
  "replace_empty [] p = []"
| "replace_empty (c # cs) p =
     (if p \<noteq> [] \<and> startswith (c # cs) p then replace_empty (drop (length p) (c # cs)) p
      else c # replace_empty cs p)"

definition whitespace :: "string list" where
  \<comment> \<open>the characters \<open>str.isspace\<close> accepts, in UTF-8: U+0009 to U+000D, U+001C to
      U+0020, U+0085, U+00A0, U+1680, U+2000 to U+200A, U+2028, U+2029, U+202F, U+205F
      and U+3000\<close>
  "whitespace =
     [[CHR 0x09], [CHR 0x0A], [CHR 0x0B], [CHR 0x0C], [CHR 0x0D], [CHR 0x1C], [CHR 0x1D],
      [CHR 0x1E], [CHR 0x1F], [CHR 0x20], [CHR 0xC2, CHR 0x85], [CHR 0xC2, CHR 0xA0],
      [CHR 0xE1, CHR 0x9A, CHR 0x80], [CHR 0xE2, CHR 0x80, CHR 0x80],
      [CHR 0xE2, CHR 0x80, CHR 0x81], [CHR 0xE2, CHR 0x80, CHR 0x82],
      [CHR 0xE2, CHR 0x80, CHR 0x83], [CHR 0xE2, CHR 0x80, CHR 0x84],
      [CHR 0xE2, CHR 0x80, CHR 0x85], [CHR 0xE2, CHR 0x80, CHR 0x86],
      [CHR 0xE2, CHR 0x80, CHR 0x87], [CHR 0xE2, CHR 0x80, CHR 0x88],
      [CHR 0xE2, CHR 0x80, CHR 0x89], [CHR 0xE2, CHR 0x80, CHR 0x8A],
      [CHR 0xE2, CHR 0x80, CHR 0xA8], [CHR 0xE2, CHR 0x80, CHR 0xA9],
      [CHR 0xE2, CHR 0x80, CHR 0xAF], [CHR 0xE2, CHR 0x81, CHR 0x9F],
      [CHR 0xE3, CHR 0x80, CHR 0x80]]"

fun strip_left :: "string list \<Rightarrow> string \<Rightarrow> string" where
  \<comment> \<open>the text without the characters of \<open>ws\<close> it begins with\<close>
  "strip_left ws [] = []"
| "strip_left ws (c # cs) =
     (case find (startswith (c # cs)) ws of
        None \<Rightarrow> c # cs
      | Some w \<Rightarrow> if w = [] then c # cs else strip_left ws (drop (length w - 1) cs))"

definition strip :: "string \<Rightarrow> string" where
  \<comment> \<open>\<open>s.strip()\<close>: whitespace is removed at the left end, then at the right end (read
      from the last byte backwards, where a character shows its bytes in reverse)\<close>
  "strip s = rev (strip_left (map rev whitespace) (rev (strip_left whitespace s)))"

definition lower_char :: "char \<Rightarrow> char" where
  "lower_char c =
     (case map_of (zip ''ABCDEFGHIJKLMNOPQRSTUVWXYZ'' ''abcdefghijklmnopqrstuvwxyz'') c of
        None \<Rightarrow> c | Some l \<Rightarrow> l)"

fun lower :: "string \<Rightarrow> string" where
  \<comment> \<open>\<open>s.lower()\<close>, as far as ASCII characters go: the ASCII capitals are lowered, and so
      are the two characters outside ASCII whose lower case has an ASCII letter, U+0130
      (to \<open>i\<close> and U+0307) and U+212A (to \<open>k\<close>). Any other character outside ASCII is
      left as it is; Python may lower it, always to characters outside ASCII, so the
      ASCII characters of the result and what lies between them are as in Python.\<close>
  "lower [] = []"
| "lower (c # cs) =
     (if startswith (c # cs) [CHR 0xC4, CHR 0xB0]
      then [CHR ''i'', CHR 0xCC, CHR 0x87] @ lower (drop 1 cs)
      else if startswith (c # cs) [CHR 0xE2, CHR 0x84, CHR 0xAA]
      then CHR ''k'' # lower (drop 2 cs)
      else lower_char c # lower cs)"

definition baht :: string where
  \<comment> \<open>the Thai Baht sign U+0E3F, in UTF-8\<close>
  "baht = [CHR 0xE0, CHR 0xB8, CHR 0xBF]"

section \<open>Numbers in text\<close>

definition digit_blocks :: "(string \<times> char) list" where
  \<comment> \<open>the decimal digits outside ASCII (category Nd), which the pattern \<open>\d\<close> and \<open>float\<close>
      accept as they do 0 to 9. They come in 65 runs of ten characters, zero to nine, that
      differ in the last byte only: each entry gives the bytes before the last one and
      the last byte of the zero, from the Arabic-Indic digits (U+0660) to the segmented
      digits (U+1FBF0).\<close>
  "digit_blocks =
     [([CHR 0xD9], CHR 0xA0), ([CHR 0xDB], CHR 0xB0), ([CHR 0xDF], CHR 0x80),
      ([CHR 0xE0, CHR 0xA5], CHR 0xA6), ([CHR 0xE0, CHR 0xA7], CHR 0xA6),
      ([CHR 0xE0, CHR 0xA9], CHR 0xA6), ([CHR 0xE0, CHR 0xAB], CHR 0xA6),
      ([CHR 0xE0, CHR 0xAD], CHR 0xA6), ([CHR 0xE0, CHR 0xAF], CHR 0xA6),
      ([CHR 0xE0, CHR 0xB1], CHR 0xA6), ([CHR 0xE0, CHR 0xB3], CHR 0xA6),
      ([CHR 0xE0, CHR 0xB5], CHR 0xA6), ([CHR 0xE0, CHR 0xB7], CHR 0xA6),
      ([CHR 0xE0, CHR 0xB9], CHR 0x90), ([CHR 0xE0, CHR 0xBB], CHR 0x90),
      ([CHR 0xE0, CHR 0xBC], CHR 0xA0), ([CHR 0xE1, CHR 0x81], CHR 0x80),
      ([CHR 0xE1, CHR 0x82], CHR 0x90), ([CHR 0xE1, CHR 0x9F], CHR 0xA0),
      ([CHR 0xE1, CHR 0xA0], CHR 0x90), ([CHR 0xE1, CHR 0xA5], CHR 0x86),
      ([CHR 0xE1, CHR 0xA7], CHR 0x90), ([CHR 0xE1, CHR 0xAA], CHR 0x80),
      ([CHR 0xE1, CHR 0xAA], CHR 0x90), ([CHR 0xE1, CHR 0xAD], CHR 0x90),
      ([CHR 0xE1, CHR 0xAE], CHR 0xB0), ([CHR 0xE1, CHR 0xB1], CHR 0x80),
      ([CHR 0xE1, CHR 0xB1], CHR 0x90), ([CHR 0xEA, CHR 0x98], CHR 0xA0),
      ([CHR 0xEA, CHR 0xA3], CHR 0x90), ([CHR 0xEA, CHR 0xA4], CHR 0x80),
      ([CHR 0xEA, CHR 0xA7], CHR 0x90), ([CHR 0xEA, CHR 0xA7], CHR 0xB0),
      ([CHR 0xEA, CHR 0xA9], CHR 0x90), ([CHR 0xEA, CHR 0xAF], CHR 0xB0),
      ([CHR 0xEF, CHR 0xBC], CHR 0x90), ([CHR 0xF0, CHR 0x90, CHR 0x92], CHR 0xA0),
      ([CHR 0xF0, CHR 0x90, CHR 0xB4], CHR 0xB0), ([CHR 0xF0, CHR 0x91, CHR 0x81], CHR 0xA6),
      ([CHR 0xF0, CHR 0x91, CHR 0x83], CHR 0xB0), ([CHR 0xF0, CHR 0x91, CHR 0x84], CHR 0xB6),
      ([CHR 0xF0, CHR 0x91, CHR 0x87], CHR 0x90), ([CHR 0xF0, CHR 0x91, CHR 0x8B], CHR 0xB0),
      ([CHR 0xF0, CHR 0x91, CHR 0x91], CHR 0x90), ([CHR 0xF0, CHR 0x91, CHR 0x93], CHR 0x90),
      ([CHR 0xF0, CHR 0x91, CHR 0x99], CHR 0x90), ([CHR 0xF0, CHR 0x91, CHR 0x9B], CHR 0x80),
      ([CHR 0xF0, CHR 0x91, CHR 0x9C], CHR 0xB0), ([CHR 0xF0, CHR 0x91, CHR 0xA3], CHR 0xA0),
      ([CHR 0xF0, CHR 0x91, CHR 0xA5], CHR 0x90), ([CHR 0xF0, CHR 0x91, CHR 0xB1], CHR 0x90),
      ([CHR 0xF0, CHR 0x91, CHR 0xB5], CHR 0x90), ([CHR 0xF0, CHR 0x91, CHR 0xB6], CHR 0xA0),
      ([CHR 0xF0, CHR 0x96, CHR 0xA9], CHR 0xA0), ([CHR 0xF0, CHR 0x96, CHR 0xAB], CHR 0x80),
      ([CHR 0xF0, CHR 0x96, CHR 0xAD], CHR 0x90), ([CHR 0xF0, CHR 0x9D, CHR 0x9F], CHR 0x8E),
      ([CHR 0xF0, CHR 0x9D, CHR 0x9F], CHR 0x98), ([CHR 0xF0, CHR 0x9D, CHR 0x9F], CHR 0xA2),
      ([CHR 0xF0, CHR 0x9D, CHR 0x9F], CHR 0xAC), ([CHR 0xF0, CHR 0x9D, CHR 0x9F], CHR 0xB6),
      ([CHR 0xF0, CHR 0x9E, CHR 0x85], CHR 0x80), ([CHR 0xF0, CHR 0x9E, CHR 0x8B], CHR 0xB0),
      ([CHR 0xF0, CHR 0x9E, CHR 0xA5], CHR 0x90), ([CHR 0xF0, CHR 0x9F, CHR 0xAF], CHR 0xB0)]"

definition digit_at :: "string \<Rightarrow> (nat \<times> nat) option" where
  \<comment> \<open>the decimal digit the text begins with: its value and its number of bytes\<close>
  "digit_at s =
     (case s of
        [] \<Rightarrow> None
      | c # cs \<Rightarrow>
          if c \<in> set ''0123456789'' then Some (of_char c - 48, 1)
          else
            (case find (\<lambda>(p, z). startswith s p \<and>
                         (case drop (length p) s of
                            [] \<Rightarrow> False
                          | d # r \<Rightarrow> (of_char z :: nat) \<le> of_char d \<and> (of_char d :: nat) \<le> of_char z + 9))
                    digit_blocks of
               None \<Rightarrow> None
             | Some (p, z) \<Rightarrow> Some (of_char (s ! length p) - of_char z, length p + 1)))"

definition numch_at :: "string \<Rightarrow> nat" where
  \<comment> \<open>the character class \<open>[\d.]\<close>: the number of bytes of the digit or point the text
      begins with, 0 when it begins with neither\<close>
  "numch_at s =
     (case digit_at s of
        Some (v, n) \<Rightarrow> n
      | None \<Rightarrow> if startswith s ''.'' then 1 else 0)"

fun number_run :: "string \<Rightarrow> string" where
  \<comment> \<open>the digits and points the text begins with\<close>
  "number_run [] = []"
| "number_run (c # cs) =
     (if numch_at (c # cs) = 0 then []
      else take (numch_at (c # cs)) (c # cs) @ number_run (drop (numch_at (c # cs) - 1) cs))"

fun search_number :: "string \<Rightarrow> string option" where
  \<comment> \<open>\<open>re.search(r'[\d.]+', s)\<close>: the leftmost, longest run of digits and points;
      \<open>None\<close> when \<open>s\<close> has no such character\<close>
  "search_number [] = None"
| "search_number (c # cs) =
     (if numch_at (c # cs) = 0 then search_number cs else Some (number_run (c # cs)))"

fun digits_of :: "string \<Rightarrow> nat list \<times> string" where
  \<comment> \<open>the values of the digits the text begins with, and the rest of the text\<close>
  "digits_of [] = ([], [])"
| "digits_of (c # cs) =
     (case digit_at (c # cs) of
        None \<Rightarrow> ([], c # cs)
      | Some (v, n) \<Rightarrow>
          (case digits_of (drop (n - 1) cs) of (vs, rest) \<Rightarrow> (v # vs, rest)))"

fun digits_value :: "nat \<Rightarrow> nat list \<Rightarrow> nat" where
  \<comment> \<open>the decimal digits read from the left, after the value \<open>acc\<close> of those already read\<close>
  "digits_value acc [] = acc"
| "digits_value acc (d # ds) = digits_value (10 * acc + d) ds"

datatype error =
    ValueError string
      \<comment> \<open>a \<open>ValueError\<close> with its message (raised by the converter or by \<open>float\<close>)\<close>
  | ColumnCountError nat nat
      \<comment> \<open>pandas' \<open>ValueError\<close> "n columns passed, passed data had m columns"\<close>
  | AmbiguousTruthValue
      \<comment> \<open>pandas' \<open>ValueError\<close> "The truth value of a Series is ambiguous"\<close>

definition float_of_str :: "string \<Rightarrow> error + real" where
  \<comment> \<open>\<open>float(s)\<close> for a text \<open>s\<close> of digits and points: digits, then at most one point
      followed by digits, with at least one digit in all; anything else is a
      \<open>ValueError\<close>. The result is kept as the exact decimal value; the rounding to an
      IEEE double is not modelled.\<close>
  "float_of_str s =
     (let bad = Inl (ValueError (''could not convert string to float: '' @ [CHR 0x27] @ s @ [CHR 0x27]))
      in case digits_of s of
           (ip, []) \<Rightarrow> if ip = [] then bad else Inr (real (digits_value 0 ip))
         | (ip, c # r) \<Rightarrow>
             (case digits_of r of
                (fp, rest) \<Rightarrow>
                  if c = CHR ''.'' \<and> rest = [] \<and> ip @ fp \<noteq> []
                  then Inr (real (digits_value 0 (ip @ fp)) / 10 ^ length fp)
                  else bad))"

section \<open>The amount classifier\<close>

text \<open>
  A cell of an extracted table is a text or \<open>None\<close> (pdfplumber gives
  \<open>Optional[str]\<close>). A value read from a row of the data frame is such a cell, or, when
  the column label occurs more than once, a pandas Series of the cells under that label.
  \<open>bool\<close> of a Series raises; \<open>str\<close> of a Series never does: it gives pandas' printout of
  the Series, which the value carries with it.
\<close>

type_synonym cell = "string option"

datatype pyval = NoneVal | Str string | Series "cell list" string
  \<comment> \<open>for a Series: its cells, and the text \<open>str\<close> gives of it\<close>

fun truth :: "pyval \<Rightarrow> error + bool" where
  \<comment> \<open>the truth value Python's \<open>if\<close>, \<open>not\<close> and \<open>or\<close> take of a value\<close>
  "truth NoneVal = Inr False"
| "truth (Str s) = Inr (s \<noteq> [])"
| "truth (Series cs printout) = Inl AmbiguousTruthValue"

fun py_str :: "pyval \<Rightarrow> string" where
  \<comment> \<open>\<open>str(v)\<close>\<close>
  "py_str NoneVal = ''None''"
| "py_str (Str s) = s"
| "py_str (Series cs printout) = printout"

definition normalize :: "string \<Rightarrow> string" where
  \<comment> \<open>lines 32 and 35 of \<open>converter.py\<close>: strip, then drop \<open>$\<close>, the Baht sign
      and commas\<close>
  "normalize s = replace_empty (replace_empty (replace_empty (strip s) ''$'') baht) '',''"

definition classify :: "string \<Rightarrow> real \<Rightarrow> real option \<times> real option" where
  \<comment> \<open>lines 45 to 53: the branch on keywords and signs\<close>
  "classify v amount =
     (let value_lower = lower v in
      if contains value_lower ''dr'' \<or> contains value_lower ''withdrawal'' \<or> startswith v ''-''
      then (Some amount, None)
      else if contains value_lower ''cr'' \<or> contains value_lower ''deposit'' \<or> startswith v ''+''
      then (None, Some amount)
      else (None, Some amount))"

definition parse_amount :: "pyval \<Rightarrow> error + (real option \<times> real option)" where
  \<comment> \<open>the result pair is (withdrawal, deposit); \<open>pd.isna\<close> is false of every text\<close>
  "parse_amount withdrawal_deposit_value =
     (case truth withdrawal_deposit_value of
        Inl e \<Rightarrow> Inl e
      | Inr False \<Rightarrow> Inr (None, None)
      | Inr True \<Rightarrow>
          let v = normalize (py_str withdrawal_deposit_value) in
          (case search_number v of
             None \<Rightarrow> Inr (None, None)
           | Some amount_match \<Rightarrow>
               (case float_of_str amount_match of
                  Inl e \<Rightarrow> Inl e
                | Inr amount \<Rightarrow> Inr (classify v amount))))"

section \<open>The row transformer\<close>

text \<open>
  \<open>pd.DataFrame(data_rows, columns=headers)\<close> is modelled for a list of rows of cells, as
  pandas 1 and 2 build it: the rows are padded with \<open>None\<close> to the length of the longest
  one, the number of labels must be that length, and the cells stay Python objects
  (texts and \<open>None\<close>). The frame is the list of its rows, in order, under the labels; a
  row is known by its position, which it keeps when other rows are dropped.
  The header row is taken to have at least one label, as every row of an extracted table
  has at least one cell.

  The printout pandas gives of a Series is pandas' own layout. It is a parameter here:
  a function from the label asked for, the position of the row and the cells under the
  label to the text.
\<close>

type_synonym series_printer = "string \<Rightarrow> nat \<Rightarrow> cell list \<Rightarrow> string"

definition data_frame :: "cell list list \<Rightarrow> cell list \<Rightarrow> error + cell list list" where
  "data_frame data columns =
     (if data = [] then Inr []
      else
        let k = fold max (map length data) 0 in
        if length columns \<noteq> k then Inl (ColumnCountError (length columns) k)
        else Inr (map (\<lambda>row. row @ replicate (k - length row) None) data))"

definition dropna_all :: "(nat \<times> cell list) list \<Rightarrow> (nat \<times> cell list) list" where
  \<comment> \<open>\<open>df.dropna(how='all')\<close>: the rows whose cells are all \<open>None\<close> are removed\<close>
  "dropna_all rows = filter (\<lambda>(i, row). \<not> list_all (\<lambda>c. c = None) row) rows"

definition of_cell :: "cell \<Rightarrow> pyval" where
  "of_cell c = (case c of None \<Rightarrow> NoneVal | Some s \<Rightarrow> Str s)"

definition row_get :: "series_printer \<Rightarrow> cell list \<Rightarrow> nat \<Rightarrow> cell list \<Rightarrow> string \<Rightarrow> pyval" where
  \<comment> \<open>\<open>row.get(key, '')\<close> on the row at position \<open>i\<close> of the frame under the labels
      \<open>columns\<close>\<close>
  "row_get printer columns i row key =
     (case map snd (filter (\<lambda>(label, c). label = Some key) (zip columns row)) of
        [] \<Rightarrow> Str []
      | [c] \<Rightarrow> of_cell c
      | cs \<Rightarrow> Series cs (printer key i cs))"

datatype num_or_empty = Number real | EmptyStr

record output_transaction =
  Date :: string
  Description :: string
  Withdrawal :: num_or_empty
  Deposit :: num_or_empty
  Category :: string
  Notes :: string

definition amount_or_empty :: "real option \<Rightarrow> num_or_empty" where
  \<comment> \<open>\<open>x if x else ''\<close>: \<open>None\<close> and \<open>0.0\<close> are both false\<close>
  "amount_or_empty x =
     (case x of None \<Rightarrow> EmptyStr | Some a \<Rightarrow> if a \<noteq> 0 then Number a else EmptyStr)"

definition transform_row ::
  "series_printer \<Rightarrow> cell list \<Rightarrow> nat \<Rightarrow> cell list \<Rightarrow> error + output_transaction option"
where
  \<comment> \<open>the body of the loop of \<open>clean_and_transform\<close>, lines 76 to 110; \<open>None\<close> is
      \<open>continue\<close>\<close>
  "transform_row printer columns i row =
     (let date_val = row_get printer columns i row ''Date'';
          time_val = row_get printer columns i row ''Time/Eff.Date''
      in
      case truth date_val of Inl e \<Rightarrow> Inl e | Inr date_true \<Rightarrow>
      let date_str = (if date_true then strip (py_str date_val) else []);
          description = strip (py_str (row_get printer columns i row ''Descriptions''))
      in
      case parse_amount (row_get printer columns i row ''Withdrawal / Deposit'') of
        Inl e \<Rightarrow> Inl e | Inr (withdrawal, deposit) \<Rightarrow>
      let channel = strip (py_str (row_get printer columns i row ''Channel''));
          details = strip (py_str (row_get printer columns i row ''Details''));
          full_description =
            (if description \<noteq> [] \<and> details \<noteq> [] then description @ '' - '' @ details
             else if description \<noteq> [] then description else details)
      in
      if withdrawal = None \<and> deposit = None then Inr None
      else
        case truth time_val of Inl e \<Rightarrow> Inl e | Inr time_true \<Rightarrow>
        Inr (Some \<lparr>Date = date_str, Description = full_description,
                   Withdrawal = amount_or_empty withdrawal, Deposit = amount_or_empty deposit,
                   Category = channel,
                   Notes = (if time_true then ''Time/Eff.Date: '' @ py_str time_val else [])\<rparr>))"

fun process_rows ::
  "series_printer \<Rightarrow> cell list \<Rightarrow> (nat \<times> cell list) list \<Rightarrow> output_transaction list
   \<Rightarrow> error + output_transaction list"
where
  \<comment> \<open>the loop over \<open>df.iterrows()\<close>, appending to \<open>processed_data\<close>\<close>
  "process_rows printer columns [] processed_data = Inr processed_data"
| "process_rows printer columns ((i, row) # rows) processed_data =
     (case transform_row printer columns i row of
        Inl e \<Rightarrow> Inl e
      | Inr None \<Rightarrow> process_rows printer columns rows processed_data
      | Inr (Some t) \<Rightarrow> process_rows printer columns rows (processed_data @ [t]))"

definition clean_and_transform ::
  "series_printer \<Rightarrow> cell list list \<Rightarrow> error + output_transaction list"
where
  "clean_and_transform printer raw_data =
     (case raw_data of
        [] \<Rightarrow> Inl (ValueError ''No data extracted from PDF'')
      | headers # data_rows \<Rightarrow>
          (case data_frame data_rows headers of
             Inl e \<Rightarrow> Inl e
           | Inr df \<Rightarrow> process_rows printer headers (dropna_all (enumerate 0 df)) []))"

section \<open>Unsigned numeric text\<close>

definition ascii_digit :: "char \<Rightarrow> bool" where
  "ascii_digit c = (c \<in> set ''0123456789'')"

definition ascii_numch :: "char \<Rightarrow> bool" where
  "ascii_numch c = (ascii_digit c \<or> c = CHR ''.'')"

definition unsigned_numeric :: "string \<Rightarrow> bool" where
  \<comment> \<open>the specification's "unsigned numeric text": the digits 0 to 9 with at most one
      decimal point and at least one digit, nothing else (no sign, no keyword, no blank)\<close>
  "unsigned_numeric s =
     (list_all ascii_numch s \<and> list_ex ascii_digit s
      \<and> length (filter (\<lambda>c. c = CHR ''.'') s) \<le> 1)"

section \<open>The converter and the files\<close>

text \<open>
  The file system is a map from paths to file contents and a set of existing
  directories; paths are plain texts (pathlib's normalisation is not modelled). What
  pdfplumber extracts from the bytes of a file, the printout pandas gives of a Series and
  the text pandas' \<open>to_csv\<close> writes for a frame belong to those libraries and are
  parameters of the model. The progress lines that \<open>convert\<close> prints are left out.
\<close>

datatype io_error =
    Converter error
      \<comment> \<open>an outcome of the extraction-free part of the converter, as above\<close>
  | FileNotFoundError string
      \<comment> \<open>no file at the path, or no directory to create it in (there pandas raises
          an \<open>OSError\<close> of its own)\<close>
  | PdfError string
      \<comment> \<open>any exception pdfplumber raises on the bytes of the file\<close>

type_synonym pdf = "cell list list list list"
  \<comment> \<open>pages, each a list of tables, each a list of rows of cells\<close>

record libs =
  pdf_pages :: "string \<Rightarrow> string + pdf"
    \<comment> \<open>\<open>page.extract_tables()\<close> of every page of the PDF with these bytes, or the message
        of pdfplumber's exception\<close>
  series_text :: series_printer
    \<comment> \<open>the text \<open>str\<close> gives of a Series\<close>
  to_csv :: "output_transaction list \<Rightarrow> string"
    \<comment> \<open>the text \<open>DataFrame(records).to_csv(index=False)\<close> writes\<close>

record world =
  files :: "string \<rightharpoonup> string"
  dirs :: "string set"
  uuid_source :: "nat \<Rightarrow> string"
    \<comment> \<open>the results of the successive calls of \<open>uuid.uuid4()\<close>, as texts\<close>
  uuid_count :: nat
    \<comment> \<open>how many of them have been drawn\<close>

definition dirname :: "string \<Rightarrow> string" where
  \<comment> \<open>the text before the last \<open>/\<close> of a path\<close>
  "dirname p = rev (drop 1 (dropWhile (\<lambda>c. c \<noteq> CHR ''/'') (rev p)))"

definition write_file :: "string \<Rightarrow> string \<Rightarrow> world \<Rightarrow> (io_error + unit) \<times> world" where
  \<comment> \<open>creating or overwriting the file at \<open>path\<close>; its directory must exist\<close>
  "write_file path bytes w =
     (if dirname path \<in> dirs w then (Inr (), w\<lparr>files := (files w)(path \<mapsto> bytes)\<rparr>)
      else (Inl (FileNotFoundError path), w))"

record converter =
  input_path :: string
  output_path :: string
    \<comment> \<open>the two paths as \<open>__init__\<close> leaves them\<close>

definition extract_tables_from_pdf :: "libs \<Rightarrow> converter \<Rightarrow> world \<Rightarrow> io_error + cell list list" where
  \<comment> \<open>the rows of every non-empty table of every page, in order\<close>
  "extract_tables_from_pdf ext self w =
     (case files w (input_path self) of
        None \<Rightarrow> Inl (FileNotFoundError (input_path self))
      | Some bytes \<Rightarrow>
          (case pdf_pages ext bytes of
             Inl msg \<Rightarrow> Inl (PdfError msg)
           | Inr pages \<Rightarrow>
               Inr (concat (map (\<lambda>tables. concat (filter (\<lambda>table. table \<noteq> []) tables)) pages))))"

definition convert :: "libs \<Rightarrow> converter \<Rightarrow> world \<Rightarrow> (io_error + string) \<times> world" where
  \<comment> \<open>the result is the output path, or the exception that ends the call; the world is
      returned as the call leaves it\<close>
  "convert ext self w =
     (case extract_tables_from_pdf ext self w of
        Inl e \<Rightarrow> (Inl e, w)
      | Inr raw_data \<Rightarrow>
          if raw_data = [] then (Inl (Converter (ValueError ''No tables found in PDF'')), w)
          else
            (case clean_and_transform (series_text ext) raw_data of
               Inl e \<Rightarrow> (Inl (Converter e), w)
             | Inr df \<Rightarrow>
                 (case write_file (output_path self) (to_csv ext df) w of
                    (Inl e, w') \<Rightarrow> (Inl e, w')
                  | (Inr u, w') \<Rightarrow> (Inr (output_path self), w'))))"

section \<open>The HTTP handler\<close>

record upload_file =
  filename :: string
  content :: string

datatype response =
    FileResponse string string string
      \<comment> \<open>path, media type and download name\<close>
  | HTTPException nat string
      \<comment> \<open>status code and detail\<close>
  | ConversionFailed io_error
      \<comment> \<open>\<open>HTTPException(500, f"Conversion failed: {str(e)}")\<close> for the exception \<open>e\<close>\<close>

definition path_name :: "string \<Rightarrow> string" where
  \<comment> \<open>\<open>Path(p).name\<close>: the text after the last \<open>/\<close>\<close>
  "path_name p = rev (takeWhile (\<lambda>c. c \<noteq> CHR ''/'') (rev p))"

definition path_stem :: "string \<Rightarrow> string" where
  \<comment> \<open>\<open>Path(p).stem\<close>: the name without its last suffix; a point that starts or ends
      the name starts no suffix\<close>
  "path_stem p =
     (let name = path_name p;
          after = length (takeWhile (\<lambda>c. c \<noteq> CHR ''.'') (rev name));
          i = length name - after - 1
      in if CHR ''.'' \<in> set name \<and> 0 < i \<and> 0 < after then take i name else name)"

definition UPLOAD_DIR :: string where
  "UPLOAD_DIR = ''/app/uploads''"

definition OUTPUT_DIR :: string where
  "OUTPUT_DIR = ''/app/outputs''"

definition convert_pdf :: "libs \<Rightarrow> upload_file \<Rightarrow> world \<Rightarrow> response \<times> world" where
  \<comment> \<open>\<open>POST /convert\<close>\<close>
  "convert_pdf ext file w =
     (if \<not> endswith (filename file) ''.pdf''
      then (HTTPException 400 ''Only PDF files are accepted'', w)
      else
        let job_id = uuid_source w (uuid_count w);
            w1 = w\<lparr>uuid_count := Suc (uuid_count w)\<rparr>;
            input = UPLOAD_DIR @ ''/'' @ job_id @ ''_'' @ filename file;
            output = OUTPUT_DIR @ ''/'' @ job_id @ ''_firefly.csv'';
            (result, w3) =
              (case write_file input (content file) w1 of
                 (Inl e, w2) \<Rightarrow> (Inl e, w2)
               | (Inr u, w2) \<Rightarrow> convert ext \<lparr>input_path = input, output_path = output\<rparr> w2);
            reply =
              (case result of
                 Inr p \<Rightarrow> FileResponse output ''text/csv'' (path_stem (filename file) @ ''_firefly.csv'')
               | Inl e \<Rightarrow> ConversionFailed e)
        in (reply, w3\<lparr>files := (files w3)(input := None)\<rparr>))"

section \<open>The text of a CSV row\<close>








section \<open>An example table\<close>

definition example_headers :: "cell list" where
  "example_headers =
     [Some ''Date'', Some ''Descriptions'', Some ''Withdrawal / Deposit'', Some ''Channel'',
      Some ''Details'']"

definition padded_channel_row :: "cell list" where
  \<comment> \<open>a data row whose Channel cell has a blank on each side\<close>
  "padded_channel_row =
     [Some ''2024-01-05'', Some ''Grocery'', Some ''DR 45.00'', Some '' POS '', Some ''Store A'']"

definition grocery_record :: output_transaction where
  "grocery_record =
     \<lparr>Date = ''2024-01-05'', Description = ''Grocery - Store A'', Withdrawal = Number 45,
      Deposit = EmptyStr, Category = ''POS'', Notes = []\<rparr>"


definition no_printer :: series_printer where
  \<comment> \<open>a stand-in for pandas' printout where no Series is printed\<close>
  "no_printer label i cs = []"

definition no_tables_libs :: libs where
  \<comment> \<open>a PDF of two pages, the first without a table, the second with one empty table\<close>
  "no_tables_libs =
     \<lparr>pdf_pages = (\<lambda>bytes. Inr [[], [[]]]), series_text = no_printer, to_csv = (\<lambda>df. [])\<rparr>"

definition one_file_world :: world where
  "one_file_world =
     \<lparr>files = [''in.pdf'' \<mapsto> ''%PDF''], dirs = {[]}, uuid_source = (\<lambda>n. []), uuid_count = 0\<rparr>"

definition cli_converter :: converter where
  "cli_converter = \<lparr>input_path = ''in.pdf'', output_path = ''in_firefly.csv''\<rparr>"

definition text_upload :: upload_file where
  "text_upload = \<lparr>filename = ''statement.txt'', content = ''hello''\<rparr>"

definition nbsp :: string where
  \<comment> \<open>the no-break space U+00A0, in UTF-8\<close>
  "nbsp = [CHR 0xC2, CHR 0xA0]"

definition thai_one :: string where
  \<comment> \<open>the Thai digit one U+0E51, in UTF-8\<close>
  "thai_one = [CHR 0xE0, CHR 0xB9, CHR 0x91]"

section \<open>Evaluation\<close>


lemmas text_eval = strip_def whitespace_def baht_def digit_at_def digit_blocks_def numch_at_def
  float_of_str_def lower_char_def normalize_def nbsp_def thai_one_def

lemmas amount_eval = parse_amount_def classify_def

lemmas frame_eval = clean_and_transform_def data_frame_def dropna_all_def row_get_def
  of_cell_def transform_row_def amount_or_empty_def


lemmas example_eval = example_headers_def padded_channel_row_def grocery_record_def

section \<open>Texts of digits and points\<close>

lemma startswith_hd: "startswith s p \<Longrightarrow> p \<noteq> [] \<Longrightarrow> s \<noteq> [] \<and> hd s = hd p"
  by (cases s; cases p) auto

lemma replace_empty_absent: "hd p \<notin> set s \<Longrightarrow> replace_empty s p = s"
proof (induction s)
  case Nil
  then show ?case by simp
next
  case (Cons c cs)
  have "\<not> (p \<noteq> [] \<and> startswith (c # cs) p)"
    using Cons.prems startswith_hd [of "c # cs" p] by auto
  moreover have "replace_empty cs p = cs" using Cons by simp
  ultimately show ?case by auto
qed

lemma contains_hd: "contains s p \<Longrightarrow> p \<noteq> [] \<Longrightarrow> hd p \<in> set s"
proof (induction s)
  case Nil
  then show ?case by simp
next
  case (Cons c cs)
  then show ?case using startswith_hd [of "c # cs" p] by auto
qed

lemma ascii_numch_set: "ascii_numch c = (c \<in> set ''0123456789.'')"
  by (auto simp: ascii_numch_def ascii_digit_def)

lemma strip_left_absent:
  assumes "\<forall>w\<in>set ws. w \<noteq> [] \<and> hd w \<notin> set s"
  shows "strip_left ws s = s"
proof (cases s)
  case Nil
  then show ?thesis by simp
next
  case (Cons c cs)
  have "\<not> startswith (c # cs) w" if "w \<in> set ws" for w
    using assms that startswith_hd [of "c # cs" w] Cons by auto
  then have "find (startswith (c # cs)) ws = None" by (simp add: find_None_iff)
  then show ?thesis using Cons by simp
qed

lemma whitespace_heads:
  "\<forall>w\<in>set whitespace. w \<noteq> [] \<and> hd w \<notin> set ''0123456789.''"
  by (simp add: whitespace_def)

lemma whitespace_lasts:
  "\<forall>w\<in>set (map rev whitespace). w \<noteq> [] \<and> hd w \<notin> set ''0123456789.''"
  by (simp add: whitespace_def)

lemma strip_numeric:
  assumes "list_all ascii_numch s"
  shows "strip s = s"
proof -
  have sub: "set s \<subseteq> set ''0123456789.''"
  proof (rule subsetI)
    fix c
    assume "c \<in> set s"
    then have "ascii_numch c" using assms by (simp add: list_all_iff)
    then show "c \<in> set ''0123456789.''" by (simp only: ascii_numch_set)
  qed
  have "\<forall>w\<in>set whitespace. w \<noteq> [] \<and> hd w \<notin> set s"
    using whitespace_heads sub by blast
  then have l: "strip_left whitespace s = s" by (rule strip_left_absent)
  have "\<forall>w\<in>set (map rev whitespace). w \<noteq> [] \<and> hd w \<notin> set (rev s)"
    using whitespace_lasts sub by (simp only: set_rev) blast
  then have "strip_left (map rev whitespace) (rev s) = rev s" by (rule strip_left_absent)
  then show ?thesis by (simp add: strip_def l)
qed

lemma lower_char_numch: "ascii_numch c \<Longrightarrow> lower_char c = c \<and> c \<noteq> CHR 0xC4 \<and> c \<noteq> CHR 0xE2"
proof -
  assume "ascii_numch c"
  then have "c \<in> set ''0123456789.''" by (simp only: ascii_numch_set)
  moreover have "\<forall>c\<in>set ''0123456789.''. lower_char c = c \<and> c \<noteq> CHR 0xC4 \<and> c \<noteq> CHR 0xE2"
    by (simp add: lower_char_def)
  ultimately show ?thesis by blast
qed

lemma lower_numeric: "list_all ascii_numch s \<Longrightarrow> lower s = s"
proof (induction s)
  case Nil
  then show ?case by simp
next
  case (Cons c cs)
  then show ?case using lower_char_numch [of c] by simp
qed

lemma normalize_numeric:
  assumes "list_all ascii_numch s"
  shows "normalize s = s"
proof -
  have n: "c \<notin> set s" if "\<not> ascii_numch c" for c
    using assms that by (auto simp: list_all_iff)
  have "hd ''$'' \<notin> set s" "hd baht \<notin> set s" "hd '','' \<notin> set s"
    by (rule n, simp add: ascii_numch_def ascii_digit_def baht_def)+
  then show ?thesis by (simp add: normalize_def strip_numeric [OF assms] replace_empty_absent)
qed

lemma digit_at_ascii: "ascii_digit c \<Longrightarrow> digit_at (c # cs) = Some (of_char c - 48, 1)"
  by (simp add: digit_at_def ascii_digit_def)

lemma digit_at_point: "digit_at (CHR ''.'' # cs) = None"
  by (simp add: digit_at_def digit_blocks_def)

lemma digit_at_Nil: "digit_at [] = None"
  by (simp add: digit_at_def)

lemma numch_at_numeric: "ascii_numch c \<Longrightarrow> numch_at (c # cs) = 1"
  by (auto simp: ascii_numch_def numch_at_def digit_at_ascii digit_at_point)

lemma number_run_numeric: "list_all ascii_numch s \<Longrightarrow> number_run s = s"
  by (induction s) (simp_all add: numch_at_numeric)

lemma search_number_numeric: "list_all ascii_numch s \<Longrightarrow> s \<noteq> [] \<Longrightarrow> search_number s = Some s"
proof (cases s)
  case Nil
  assume "s \<noteq> []"
  with Nil show ?thesis by simp
next
  case (Cons c cs)
  assume a: "list_all ascii_numch s"
  then have "numch_at (c # cs) = 1" using Cons by (simp add: numch_at_numeric)
  then show ?thesis using number_run_numeric [OF a] Cons by simp
qed

lemma digits_of_ascii:
  "list_all ascii_digit ds \<Longrightarrow> digit_at r = None \<Longrightarrow>
   digits_of (ds @ r) = (map (\<lambda>c. of_char c - 48) ds, r)"
proof (induction ds)
  case Nil
  then show ?case by (cases r) simp_all
next
  case (Cons d ds)
  then show ?case by (simp add: digit_at_ascii)
qed

lemma float_of_str_numeric:
  assumes "unsigned_numeric s"
  shows "\<exists>a. float_of_str s = Inr a"
proof -
  from assms have all: "list_all ascii_numch s" and ex: "list_ex ascii_digit s"
    and cnt: "length (filter (\<lambda>c. c = CHR ''.'') s) \<le> 1"
    by (auto simp: unsigned_numeric_def)
  define ip where "ip = takeWhile ascii_digit s"
  have ipd: "list_all ascii_digit ip" by (simp add: ip_def list_all_iff) (meson set_takeWhileD)
  have split: "s = ip @ dropWhile ascii_digit s" by (simp add: ip_def)
  show ?thesis
  proof (cases "dropWhile ascii_digit s")
    case Nil
    have s: "s = ip @ []" using split by (simp only: Nil)
    have "ip \<noteq> []" using ex s by auto
    moreover have "digits_of s = (map (\<lambda>c. of_char c - 48) ip, [])"
      by (subst s) (rule digits_of_ascii [OF ipd digit_at_Nil])
    ultimately show ?thesis by (simp add: float_of_str_def)
  next
    case (Cons c fp)
    have "\<not> ascii_digit c" using Cons hd_dropWhile [of ascii_digit s] by auto
    moreover have "c \<in> set s" using Cons set_dropWhileD [of c ascii_digit s] by simp
    ultimately have c: "c = CHR ''.''" using all by (auto simp: list_all_iff ascii_numch_def)
    have s: "s = ip @ CHR ''.'' # fp" using split Cons c by simp
    have "length (filter (\<lambda>c. c = CHR ''.'') (ip @ CHR ''.'' # fp)) \<le> 1"
      using cnt s by simp
    then have nop: "filter (\<lambda>c. c = CHR ''.'') fp = []" by simp
    have "set s = set ip \<union> insert CHR ''.'' (set fp)"
      by (subst s) simp
    then have "set fp \<subseteq> set s" by blast
    then have fpd: "list_all ascii_digit fp"
      using all nop by (auto simp: list_all_iff ascii_numch_def filter_empty_conv)
    have ne: "ip @ fp \<noteq> []"
    proof
      assume e: "ip @ fp = []"
      then have "s = ''.''" using s by simp
      then show False using ex by (simp add: ascii_digit_def)
    qed
    have 1: "digits_of s = (map (\<lambda>c. of_char c - 48) ip, CHR ''.'' # fp)"
      by (subst s) (rule digits_of_ascii [OF ipd digit_at_point])
    have 2: "digits_of fp = (map (\<lambda>c. of_char c - 48) fp, [])"
      using digits_of_ascii [OF fpd digit_at_Nil] by simp
    show ?thesis using ne by (simp add: float_of_str_def 1 2)
  qed
qed

lemma classify_default:
  "\<not> contains (lower v) ''dr'' \<Longrightarrow> \<not> contains (lower v) ''withdrawal'' \<Longrightarrow> \<not> startswith v ''-''
   \<Longrightarrow> classify v a = (None, Some a)"
  by (simp add: classify_def)

section \<open>The classifier\<close>

text \<open>
  Claim C2. On unsigned numeric text without a keyword, such as 100.50, \<open>parse_amount\<close>
  returns no withdrawal and the parsed amount as the deposit: the text parses as a number
  \<open>a\<close>, and the result is (none, \<open>a\<close>).
\<close>

theorem parse_amount_unsigned_numeric:
  assumes "unsigned_numeric s"
  shows "\<exists>a. float_of_str s = Inr a \<and> parse_amount (Str s) = Inr (None, Some a)"
proof -
  from assms have all: "list_all ascii_numch s" and ex: "list_ex ascii_digit s"
    by (auto simp: unsigned_numeric_def)
  have ne: "s \<noteq> []" using ex by auto
  obtain a where a: "float_of_str s = Inr a" using float_of_str_numeric [OF assms] by blast
  have n: "c \<notin> set s" if "\<not> ascii_numch c" for c using all that by (auto simp: list_all_iff)
  have "hd ''dr'' \<notin> set s" "hd ''withdrawal'' \<notin> set s"
    by (rule n, simp add: ascii_numch_def ascii_digit_def)+
  then have k: "\<not> contains s ''dr''" "\<not> contains s ''withdrawal''"
    using contains_hd [of s "''dr''"] contains_hd [of s "''withdrawal''"] by auto
  have "ascii_numch (hd s)" using all ne by (cases s) auto
  then have m: "\<not> startswith s ''-''"
    using startswith_hd [of s "''-''"] by (auto simp: ascii_numch_def ascii_digit_def)
  have "classify s a = (None, Some a)"
    using k m by (intro classify_default) (simp_all add: lower_numeric [OF all])
  then have "parse_amount (Str s) = Inr (None, Some a)"
    using ne a
    by (simp add: parse_amount_def normalize_numeric [OF all] search_number_numeric [OF all ne])
  with a show ?thesis by blast
qed

theorem parse_amount_unsigned_numeric_witness:
  "unsigned_numeric ''100.50'' \<and> float_of_str ''100.50'' = Inr (201 / 2)
   \<and> parse_amount (Str ''100.50'') = Inr (None, Some (201 / 2))"
proof -
  have h: "unsigned_numeric ''100.50''"
    by (simp add: unsigned_numeric_def ascii_numch_def ascii_digit_def)
  have f: "float_of_str ''100.50'' = Inr (201 / 2)" by (simp add: text_eval)
  from parse_amount_unsigned_numeric [OF h] obtain a where "float_of_str ''100.50'' = Inr a"
    and p: "parse_amount (Str ''100.50'') = Inr (None, Some a)" by blast
  with f have "a = 201 / 2" by simp
  with p h f show ?thesis by simp
qed

text \<open>
  Claim C3, as the code has it. A text that contains CR in any letter case gives a
  deposit and no withdrawal when its normalized form holds a run of digits and points
  that is a number, contains neither "dr" nor "withdrawal" in any letter case, and
  does not begin with a minus sign. The deposit is that number.
\<close>

theorem parse_amount_cr:
  assumes "contains (lower s) ''cr''"
    and "search_number (normalize s) = Some m" and "float_of_str m = Inr a"
    and "\<not> contains (lower (normalize s)) ''dr''"
    and "\<not> contains (lower (normalize s)) ''withdrawal''"
    and "\<not> startswith (normalize s) ''-''"
  shows "parse_amount (Str s) = Inr (None, Some a)"
proof -
  have "s \<noteq> []" using assms(1) by (cases s) auto
  then show ?thesis
    using assms by (simp add: parse_amount_def classify_default)
qed

theorem parse_amount_cr_witness:
  "contains (lower ''$1,250.75 CR'') ''cr''
   \<and> parse_amount (Str ''$1,250.75 CR'') = Inr (None, Some (5003 / 4))"
proof -
  have 1: "contains (lower ''$1,250.75 CR'') ''cr''" by (simp add: text_eval)
  have 2: "search_number (normalize ''$1,250.75 CR'') = Some ''1250.75''"
    by (simp add: text_eval)
  have 3: "float_of_str ''1250.75'' = Inr (5003 / 4)" by (simp add: text_eval)
  have 4: "\<not> contains (lower (normalize ''$1,250.75 CR'')) ''dr''" by (simp add: text_eval)
  have 5: "\<not> contains (lower (normalize ''$1,250.75 CR'')) ''withdrawal''"
    by (simp add: text_eval)
  have 6: "\<not> startswith (normalize ''$1,250.75 CR'') ''-''" by (simp add: text_eval)
  from parse_amount_cr [OF 1 2 3 4 5 6] 1 show ?thesis by simp
qed

text \<open>
  Claim C3 as stated fails: the text CR has no number and gives (none, none); DR/CR 5
  holds "dr", which is tested first, and -5 CR begins with a minus sign, so both give a
  withdrawal.
\<close>

theorem parse_amount_cr_counterexample:
  "contains (lower ''CR'') ''cr'' \<and> parse_amount (Str ''CR'') = Inr (None, None)
   \<and> contains (lower ''DR/CR 5'') ''cr'' \<and> parse_amount (Str ''DR/CR 5'') = Inr (Some 5, None)
   \<and> contains (lower ''-5 CR'') ''cr'' \<and> parse_amount (Str ''-5 CR'') = Inr (Some 5, None)"
  by (simp add: text_eval amount_eval)

text \<open>
  Two texts outside ASCII. A no-break space before -5 CR is stripped as a blank is, so
  the text begins with the minus sign and gives a withdrawal. The Thai digit one is a
  digit of the pattern and of \<open>float\<close>, so in the text of that digit followed by CR 5
  the first number is 1, the deposit.
\<close>

lemma parse_amount_no_break_space:
  "normalize (nbsp @ ''-5 CR'') = ''-5 CR''
   \<and> parse_amount (Str (nbsp @ ''-5 CR'')) = Inr (Some 5, None)"
  by (simp add: text_eval amount_eval)

lemma parse_amount_thai_digit:
  "search_number (normalize (thai_one @ '' CR 5'')) = Some thai_one
   \<and> float_of_str thai_one = Inr 1
   \<and> parse_amount (Str (thai_one @ '' CR 5'')) = Inr (None, Some 1)"
  by (simp add: text_eval amount_eval)

text \<open>
  Claim C10. Whatever value \<open>parse_amount\<close> is given, a pair it returns has at most one
  component set: the withdrawal and the deposit are never both numbers.
\<close>

theorem parse_amount_at_most_one:
  "parse_amount v = Inr (w, d) \<Longrightarrow> w = None \<or> d = None"
  by (auto simp: parse_amount_def classify_def Let_def
      split: sum.splits bool.splits option.splits if_splits)

theorem parse_amount_at_most_one_witness:
  "parse_amount (Str ''CR 12.5'') = Inr (None, Some (25 / 2))
   \<and> (None = (None :: real option) \<or> Some (25 / 2 :: real) = None)"
  using parse_amount_at_most_one [of "Str ''CR 12.5''" None "Some (25 / 2)"]
  by (simp add: text_eval amount_eval)

text \<open>
  Claim C4. A text without digits is meant to give (none, none) without an exception.
  The pattern \<open>[\d.]+\<close> also matches a run of points, and \<open>float\<close> rejects it: on the
  cell text \<open>N.A.\<close> the classifier raises \<open>ValueError\<close>.
\<close>

theorem parse_amount_point_raises:
  "parse_amount (Str ''N.A.'') =
     Inl (ValueError (''could not convert string to float: '' @ [CHR 0x27] @ ''.'' @ [CHR 0x27]))"
  by (simp add: text_eval amount_eval)

section \<open>The transformer\<close>

text \<open>
  Claim C5. The header row Date, Descriptions, Withdrawal / Deposit, Channel, Details with
  the data row 2024-01-05, Grocery, DR 45.00, POS, Store A gives exactly one record: Date
  2024-01-05, Description "Grocery - Store A", Withdrawal 45.0, Deposit empty, Category
  POS, Notes empty.
\<close>

theorem clean_and_transform_example:
  "clean_and_transform printer
     [[Some ''Date'', Some ''Descriptions'', Some ''Withdrawal / Deposit'', Some ''Channel'',
       Some ''Details''],
      [Some ''2024-01-05'', Some ''Grocery'', Some ''DR 45.00'', Some ''POS'', Some ''Store A'']]
   = Inr [\<lparr>Date = ''2024-01-05'', Description = ''Grocery - Store A'', Withdrawal = Number 45,
            Deposit = EmptyStr, Category = ''POS'', Notes = []\<rparr>]"
  by (simp add: text_eval amount_eval frame_eval)

text \<open>
  Claim C1. An emitted record is meant to have a Withdrawal or a Deposit. The row is kept
  when the amount is not \<open>None\<close>, but the field is written by truth value, and \<open>0.0\<close> is
  false: a row whose amount is 0.00 is emitted with both fields empty.
\<close>

theorem clean_and_transform_zero_amount:
  "clean_and_transform printer
     [[Some ''Date'', Some ''Descriptions'', Some ''Withdrawal / Deposit'', Some ''Channel'',
       Some ''Details''],
      [Some ''2024-01-05'', Some ''Fee waiver'', Some ''0.00'', Some ''POS'', Some ''Store A'']]
   = Inr [\<lparr>Date = ''2024-01-05'', Description = ''Fee waiver - Store A'', Withdrawal = EmptyStr,
            Deposit = EmptyStr, Category = ''POS'', Notes = []\<rparr>]"
  by (simp add: text_eval amount_eval frame_eval)

lemma process_rows_emits:
  "process_rows printer cols rows acc = Inr out \<Longrightarrow>
   set acc \<subseteq> set out \<and>
   (\<forall>(i, row)\<in>set rows. \<forall>t. transform_row printer cols i row = Inr (Some t) \<longrightarrow> t \<in> set out)"
proof (induction rows arbitrary: acc)
  case Nil
  then show ?case by simp
next
  case (Cons r rows)
  obtain i row where r: "r = (i, row)" by (cases r)
  show ?case
  proof (cases "transform_row printer cols i row")
    case (Inl e)
    with Cons.prems r show ?thesis by simp
  next
    case (Inr res)
    show ?thesis
    proof (cases res)
      case None
      with Inr Cons.prems r have "process_rows printer cols rows acc = Inr out" by simp
      from Cons.IH [OF this] Inr None r show ?thesis by auto
    next
      case (Some t)
      with Inr Cons.prems r have "process_rows printer cols rows (acc @ [t]) = Inr out" by simp
      from Cons.IH [OF this] Inr Some r show ?thesis by auto
    qed
  qed
qed

lemma transform_row_category:
  "transform_row printer cols i row = Inr (Some t) \<Longrightarrow>
   Category t = strip (py_str (row_get printer cols i row ''Channel''))"
  unfolding transform_row_def Let_def
  by (auto split: sum.splits prod.splits if_splits)

text \<open>
  Claim C8, as the code has it. For every row of the frame that is not dropped, the
  transaction it gives is in the output, and its Category is the text of the row's
  Channel value with the whitespace at both ends removed.
\<close>

theorem category_is_stripped_channel:
  assumes "data_frame data_rows headers = Inr df"
    and "clean_and_transform printer (headers # data_rows) = Inr out"
    and "(i, row) \<in> set (dropna_all (enumerate 0 df))"
    and "transform_row printer headers i row = Inr (Some t)"
  shows "t \<in> set out \<and> Category t = strip (py_str (row_get printer headers i row ''Channel''))"
proof -
  from assms(1,2) have "process_rows printer headers (dropna_all (enumerate 0 df)) [] = Inr out"
    by (simp add: clean_and_transform_def)
  from process_rows_emits [OF this] assms(3,4) have "t \<in> set out" by blast
  with transform_row_category [OF assms(4)] show ?thesis by blast
qed

theorem category_is_stripped_channel_witness:
  "data_frame [padded_channel_row] example_headers = Inr [padded_channel_row]
   \<and> clean_and_transform no_printer [example_headers, padded_channel_row] = Inr [grocery_record]
   \<and> (0, padded_channel_row) \<in> set (dropna_all (enumerate 0 [padded_channel_row]))
   \<and> transform_row no_printer example_headers 0 padded_channel_row = Inr (Some grocery_record)
   \<and> grocery_record \<in> set [grocery_record]
   \<and> Category grocery_record
       = strip (py_str (row_get no_printer example_headers 0 padded_channel_row ''Channel''))"
proof -
  have 1: "data_frame [padded_channel_row] example_headers = Inr [padded_channel_row]"
    by (simp add: example_eval data_frame_def)
  have 4: "transform_row no_printer example_headers 0 padded_channel_row = Inr (Some grocery_record)"
    by (simp add: example_eval text_eval amount_eval frame_eval)
  have d: "dropna_all [(0, padded_channel_row)] = [(0, padded_channel_row)]"
    by (simp add: example_eval dropna_all_def)
  have 3: "(0, padded_channel_row) \<in> set (dropna_all (enumerate 0 [padded_channel_row]))"
    by (simp add: d)
  have 2: "clean_and_transform no_printer [example_headers, padded_channel_row] = Inr [grocery_record]"
    by (simp add: clean_and_transform_def 1 d 4)
  from category_is_stripped_channel [OF 1 2 3 4] 1 2 3 4 show ?thesis by blast
qed

text \<open>
  Claim C8 as stated fails: a Channel cell with a blank on each side of POS gives the
  Category POS, without the blanks.
\<close>

theorem category_verbatim_counterexample:
  "clean_and_transform no_printer
     [[Some ''Date'', Some ''Descriptions'', Some ''Withdrawal / Deposit'', Some ''Channel'',
       Some ''Details''],
      [Some ''2024-01-05'', Some ''Grocery'', Some ''DR 45.00'', Some '' POS '', Some ''Store A'']]
   = Inr [\<lparr>Date = ''2024-01-05'', Description = ''Grocery - Store A'', Withdrawal = Number 45,
            Deposit = EmptyStr, Category = ''POS'', Notes = []\<rparr>]
   \<and> ''POS'' \<noteq> '' POS ''"
  by (simp add: text_eval amount_eval frame_eval)

text \<open>
  Two more rows. No-break spaces around POS are whitespace to \<open>strip\<close> and are removed
  like blanks. Under a header row with the label Channel twice, the Channel value of a
  row is a Series of two cells, and the Category is the stripped printout of that Series.
\<close>

lemma category_no_break_space:
  "clean_and_transform printer
     [[Some ''Date'', Some ''Descriptions'', Some ''Withdrawal / Deposit'', Some ''Channel'',
       Some ''Details''],
      [Some ''2024-01-05'', Some ''Grocery'', Some ''DR 45.00'', Some (nbsp @ ''POS'' @ nbsp),
       Some ''Store A'']]
   = Inr [\<lparr>Date = ''2024-01-05'', Description = ''Grocery - Store A'', Withdrawal = Number 45,
            Deposit = EmptyStr, Category = ''POS'', Notes = []\<rparr>]"
  by (simp add: text_eval amount_eval frame_eval)

lemma category_of_series:
  "clean_and_transform printer
     [[Some ''Date'', Some ''Channel'', Some ''Withdrawal / Deposit'', Some ''Channel''],
      [Some ''2024-01-05'', Some ''POS'', Some ''DR 45.00'', Some ''ATM'']]
   = Inr [\<lparr>Date = ''2024-01-05'', Description = [], Withdrawal = Number 45,
            Deposit = EmptyStr,
            Category = strip (printer ''Channel'' 0 [Some ''POS'', Some ''ATM'']), Notes = []\<rparr>]"
  by (simp add: text_eval amount_eval frame_eval)

section \<open>The converter\<close>

text \<open>
  Claim C6. When the extraction gives no raw row at all, \<open>convert\<close> fails with the
  message "No tables found in PDF" and leaves the files as they were: no CSV is written.
\<close>

theorem convert_no_tables:
  "extract_tables_from_pdf ext self w = Inr [] \<Longrightarrow>
   convert ext self w = (Inl (Converter (ValueError ''No tables found in PDF'')), w)"
  by (simp add: convert_def)

theorem convert_no_tables_witness:
  "extract_tables_from_pdf no_tables_libs cli_converter one_file_world = Inr []
   \<and> convert no_tables_libs cli_converter one_file_world
       = (Inl (Converter (ValueError ''No tables found in PDF'')), one_file_world)"
proof -
  have h: "extract_tables_from_pdf no_tables_libs cli_converter one_file_world = Inr []"
    by (simp add: extract_tables_from_pdf_def no_tables_libs_def cli_converter_def
        one_file_world_def)
  from convert_no_tables [OF h] h show ?thesis by simp
qed

section \<open>The handler\<close>

text \<open>
  Claim C9. An upload to \<open>POST /convert\<close> whose file name does not end in \<open>.pdf\<close> is
  answered with status 400, and nothing has been done by then: no identifier is drawn,
  no file is staged, no conversion is started.
\<close>

theorem convert_pdf_rejects_other_names:
  "\<not> endswith (filename file) ''.pdf'' \<Longrightarrow>
   convert_pdf ext file w = (HTTPException 400 ''Only PDF files are accepted'', w)"
  by (simp add: convert_pdf_def)

theorem convert_pdf_rejects_other_names_witness:
  "\<not> endswith (filename text_upload) ''.pdf''
   \<and> convert_pdf no_tables_libs text_upload one_file_world
       = (HTTPException 400 ''Only PDF files are accepted'', one_file_world)"
proof -
  have h: "\<not> endswith (filename text_upload) ''.pdf''"
    by (simp add: endswith_def text_upload_def)
  from convert_pdf_rejects_other_names [OF h] h show ?thesis by simp
qed

section \<open>The CSV row\<close>




end
